theory Spec2Isabelle
  imports Complex_Main
begin

section \<open>JavaScript values used by the cursor module\<close>







subsection \<open>Number to string and back\<close>










subsection \<open>Dates\<close>



section \<open>The cursor module\<close>



definition MAX_JITTER_SECONDS :: int where
  "MAX_JITTER_SECONDS = 3600"

definition MIN_JITTER_SECONDS :: int where
  "MIN_JITTER_SECONDS = 1"




text \<open>
  The local \<^verbatim>\<open>jitterSeconds\<close> of \<^verbatim>\<open>handleCursorCollision\<close>; the draw
  \<^verbatim>\<open>Math.random()\<close>, a number in \<open>[0, 1)\<close>, is the argument \<open>random\<close>.
\<close>

definition jitterSeconds :: "rat \<Rightarrow> int" where
  "jitterSeconds random =
     MIN_JITTER_SECONDS +
     \<lfloor>random * rat_of_int (MAX_JITTER_SECONDS - MIN_JITTER_SECONDS + 1)\<rfloor>"



section \<open>The TypeScript client: error responses\<close>

text \<open>
  The \<^verbatim>\<open>Response\<close> of the Fetch API, as far as the client reads it: the status and
  the headers (\<^verbatim>\<open>headers.get(name)\<close> is \<open>None\<close> for an absent header).
\<close>

record Response =
  status :: nat
  headers :: "string \<rightharpoonup> string"

text \<open>
  \<^verbatim>\<open>new DurableStreamError(message, code, status?)\<close>; the class lives in
  \<^verbatim>\<open>error.ts\<close>, of which the client code here only uses the constructor.
\<close>

datatype DurableStreamError =
  DurableStreamError (error_message: string) (error_code: string) (error_status: "nat option")

text \<open>
  A thrown value: a \<^verbatim>\<open>DurableStreamError\<close>, another \<^verbatim>\<open>Error\<close>, or a value that is
  not an \<^verbatim>\<open>Error\<close> (both given by their text).
\<close>

datatype thrown = DSE DurableStreamError | OtherError string | NonError string

text \<open>The optional \<^verbatim>\<open>context?: { operation?: string }\<close> of \<^verbatim>\<open>handleErrorResponse\<close>.\<close>

record ErrorContext =
  operation :: "string option"

text \<open>\<^verbatim>\<open>context?.operation\<close>\<close>

definition context_operation :: "ErrorContext option \<Rightarrow> string option" where
  "context_operation context = (case context of None \<Rightarrow> None | Some c \<Rightarrow> operation c)"

text \<open>
  \<^verbatim>\<open>handleErrorResponse(response, url, context)\<close> of \<^verbatim>\<open>utils.ts\<close>.  The function
  never returns; its value here is what it throws.  The static method
  \<^verbatim>\<open>DurableStreamError.fromResponse\<close> is not among the source files and is the
  parameter \<open>fromResponse\<close>: the value that \<^verbatim>\<open>throw await fromResponse(response, url)\<close>
  throws.
\<close>

definition handleErrorResponse ::
  "(Response \<Rightarrow> string \<Rightarrow> thrown) \<Rightarrow> Response \<Rightarrow> string \<Rightarrow> ErrorContext option \<Rightarrow> thrown" where
  "handleErrorResponse fromResponse response url context =
     (let status = status response
      in if status = 404
         then DSE (DurableStreamError (''Stream not found: '' @ url) ''NOT_FOUND'' (Some 404))
         else if status = 409
         then
           (let message =
                  (if context_operation context = Some ''create''
                   then ''Stream already exists: '' @ url
                   else ''Sequence conflict: seq is lower than last appended'');
                code =
                  (if context_operation context = Some ''create''
                   then ''CONFLICT_EXISTS'' else ''CONFLICT_SEQ'')
            in DSE (DurableStreamError message code (Some 409)))
         else if status = 400
         then DSE (DurableStreamError ''Bad request (possibly content-type mismatch)''
                ''BAD_REQUEST'' (Some 400))
         else fromResponse response url)"

section \<open>The TypeScript client: the response stream of a session\<close>

text \<open>
  \<^verbatim>\<open>LiveMode\<close> is declared in \<^verbatim>\<open>types.ts\<close>: \<^verbatim>\<open>false\<close>, \<^verbatim>\<open>"auto"\<close>,
  \<^verbatim>\<open>"long-poll"\<close> or \<^verbatim>\<open>"sse"\<close>.
\<close>

datatype LiveMode = LiveFalse | LiveAuto | LiveLongPoll | LiveSSE

text \<open>
  Modelled from the spec: the header names behind \<^verbatim>\<open>STREAM_OFFSET_HEADER\<close>,
  \<^verbatim>\<open>STREAM_CURSOR_HEADER\<close> and \<^verbatim>\<open>STREAM_UP_TO_DATE_HEADER\<close> (\<^verbatim>\<open>constants.ts\<close> is
  not among the source files); header names are compared in lower case.
\<close>

definition STREAM_OFFSET_HEADER :: string where
  "STREAM_OFFSET_HEADER = ''stream-next-offset''"

definition STREAM_CURSOR_HEADER :: string where
  "STREAM_CURSOR_HEADER = ''stream-cursor''"

definition STREAM_UP_TO_DATE_HEADER :: string where
  "STREAM_UP_TO_DATE_HEADER = ''stream-up-to-date''"

text \<open>The state of the \<^verbatim>\<open>ReadableStream\<close> behind its controller.\<close>

datatype stream_state = Readable | Closed | Errored thrown

text \<open>The state of the \<^verbatim>\<open>#closed\<close> promise.\<close>

datatype promise_state = Pending | Resolved | Rejected thrown

text \<open>
  The fields of \<^verbatim>\<open>StreamResponseImpl\<close> that the response stream reads or writes.
  \<open>startSSE\<close> tells whether the configuration supplied \<^verbatim>\<open>startSSE\<close> (the function is
  only tested, never called); \<open>aborted\<close> is \<^verbatim>\<open>#abortController.signal.aborted\<close>;
  \<open>firstResponseYielded\<close> is the local of \<^verbatim>\<open>#createResponseStream\<close>; \<open>queue\<close> and
  \<open>stream\<close> are the controller's queue and state; \<open>fetchNext_calls\<close> records the arguments
  of every call of \<^verbatim>\<open>#fetchNext\<close>, the long-poll fetch.
\<close>

record StreamResponseImpl =
  live :: LiveMode
  offset :: string
  cursor :: "string option"
  upToDate :: bool
  stopAfterUpToDate :: bool
  startSSE :: bool
  aborted :: bool
  closed_promise :: promise_state
  firstResponse :: Response
  firstResponseYielded :: bool
  queue :: "Response list"
  stream :: stream_state
  fetchNext_calls :: "(string \<times> string option) list"

text \<open>Settling a settled promise does nothing.\<close>

definition markClosed :: "StreamResponseImpl \<Rightarrow> StreamResponseImpl" where
  "markClosed s = (if closed_promise s = Pending then s\<lparr>closed_promise := Resolved\<rparr> else s)"

definition markError :: "thrown \<Rightarrow> StreamResponseImpl \<Rightarrow> StreamResponseImpl" where
  "markError err s = (if closed_promise s = Pending then s\<lparr>closed_promise := Rejected err\<rparr> else s)"

definition shouldContinueLive :: "StreamResponseImpl \<Rightarrow> bool" where
  "shouldContinueLive s =
     (if stopAfterUpToDate s then False
      else if live s = LiveFalse then False
      else True)"

text \<open>A string is truthy when it is present and not empty.\<close>

definition truthy :: "string option \<Rightarrow> bool" where
  "truthy v = (v \<noteq> None \<and> v \<noteq> Some [])"

definition updateStateFromResponse :: "Response \<Rightarrow> StreamResponseImpl \<Rightarrow> StreamResponseImpl" where
  "updateStateFromResponse response s =
     (let offset = headers response STREAM_OFFSET_HEADER;
          s1 = (if truthy offset then s\<lparr>offset := the offset\<rparr> else s);
          cursor = headers response STREAM_CURSOR_HEADER;
          s2 = (if truthy cursor then s1\<lparr>cursor := cursor\<rparr> else s1)
      in s2\<lparr>upToDate := (headers response STREAM_UP_TO_DATE_HEADER \<noteq> None)\<rparr>)"

text \<open>\<^verbatim>\<open>controller.enqueue\<close>, \<^verbatim>\<open>controller.close\<close> and \<^verbatim>\<open>controller.error\<close>.\<close>

definition enqueue :: "Response \<Rightarrow> StreamResponseImpl \<Rightarrow> StreamResponseImpl" where
  "enqueue response s = s\<lparr>queue := queue s @ [response]\<rparr>"

definition controller_close :: "StreamResponseImpl \<Rightarrow> StreamResponseImpl" where
  "controller_close s = s\<lparr>stream := Closed\<rparr>"

definition controller_error :: "thrown \<Rightarrow> StreamResponseImpl \<Rightarrow> StreamResponseImpl" where
  "controller_error err s = s\<lparr>stream := Errored err\<rparr>"

text \<open>\<^verbatim>\<open>err instanceof Error ? err : new Error(String(err))\<close>\<close>

definition as_Error :: "thrown \<Rightarrow> thrown" where
  "as_Error err = (case err of NonError v \<Rightarrow> OtherError v | _ \<Rightarrow> err)"

text \<open>The \<^verbatim>\<open>catch\<close> block of \<^verbatim>\<open>pull\<close>.\<close>

definition pull_catch :: "thrown \<Rightarrow> StreamResponseImpl \<Rightarrow> StreamResponseImpl" where
  "pull_catch err s =
     (if aborted s then controller_close (markClosed s)
      else controller_error err (markError (as_Error err) s))"

text \<open>
  What one call of \<^verbatim>\<open>pull\<close> meets: the outcome of \<^verbatim>\<open>await this.#fetchNext(...)\<close>, a
  rejection or a response, and whether the session is aborted while the fetch is
  awaited.
\<close>

record pull_env =
  fetch_result :: "thrown + Response"
  abort_during_fetch :: bool

text \<open>The \<^verbatim>\<open>pull\<close> callback of \<^verbatim>\<open>#createResponseStream\<close>.\<close>

definition pull :: "pull_env \<Rightarrow> StreamResponseImpl \<Rightarrow> StreamResponseImpl" where
  "pull env s =
     (if \<not> firstResponseYielded s
      then
        (let s1 = enqueue (firstResponse s) (s\<lparr>firstResponseYielded := True\<rparr>)
         in if upToDate s1 \<and> \<not> shouldContinueLive s1
            then controller_close (markClosed s1)
            else s1)
      else if shouldContinueLive s
      then
        (if live s = LiveSSE \<and> startSSE s
         then pull_catch (DSE (DurableStreamError ''SSE mode is not yet implemented''
                ''SSE_NOT_SUPPORTED'' None)) s
         else if aborted s
         then controller_close (markClosed s)
         else
           (let s1 = s\<lparr>fetchNext_calls := fetchNext_calls s @ [(offset s, cursor s)],
                      aborted := abort_during_fetch env\<rparr>
            in case fetch_result env of
                 Inl err \<Rightarrow> pull_catch err s1
               | Inr response \<Rightarrow>
                   (let s2 = enqueue response (updateStateFromResponse response s1)
                    in if upToDate s2 \<and> \<not> shouldContinueLive s2
                       then controller_close (markClosed s2)
                       else s2)))
      else controller_close (markClosed s))"





section \<open>The Go client: the chunk iterator\<close>

text \<open>
  The errors that \<^verbatim>\<open>ChunkIterator\<close> returns.  \<^verbatim>\<open>ctx.Err()\<close> is one of the two
  context errors.  \<^verbatim>\<open>newStreamError(op, url, status, err)\<close> wraps an error; the
  sentinels and the wrapped errors of the transport are constructors of their own, and
  \<open>errorFromStatus\<close> stands for the value of the function of that name, which is
  declared in another file of the package.
\<close>

datatype ctx_error = Canceled | DeadlineExceeded

datatype error =
    ErrAlreadyClosed
  | Done
  | ContextError ctx_error
  | ErrStreamNotFound
  | ErrOffsetGone
  | errorFromStatus nat
  | TransportError string
  | newStreamError string string nat error

text \<open>The live mode is a string type; \<^verbatim>\<open>LiveModeNone\<close> is the empty string.\<close>

definition LiveModeNone :: string where
  "LiveModeNone = ''''"

text \<open>
  Modelled from the spec: the header names behind \<^verbatim>\<open>headerStreamOffset\<close>,
  \<^verbatim>\<open>headerStreamCursor\<close>, \<^verbatim>\<open>headerStreamUpToDate\<close> and \<^verbatim>\<open>headerETag\<close>, which are
  declared in another file of the package.
\<close>

definition headerStreamOffset :: string where
  "headerStreamOffset = ''Stream-Next-Offset''"

definition headerStreamCursor :: string where
  "headerStreamCursor = ''Stream-Cursor''"

definition headerStreamUpToDate :: string where
  "headerStreamUpToDate = ''Stream-Up-To-Date''"

definition headerETag :: string where
  "headerETag = ''ETag''"

text \<open>
  An \<^verbatim>\<open>http.Response\<close>: the status code, the header (each name with its list of
  values) and what \<^verbatim>\<open>io.ReadAll(resp.Body)\<close> yields, an error or the bytes.
\<close>

record http_Response =
  StatusCode :: nat
  Header :: "string \<rightharpoonup> string list"
  Body :: "error + string"

text \<open>\<^verbatim>\<open>Header.Get\<close>: the first value of the header, or the empty string.\<close>

definition Header_Get :: "(string \<rightharpoonup> string list) \<Rightarrow> string \<Rightarrow> string" where
  "Header_Get h key = (case h key of Some (v # _) \<Rightarrow> v | _ \<Rightarrow> '''')"

record Chunk =
  chunk_NextOffset :: string
  chunk_Data :: "string option"
  chunk_UpToDate :: bool
  chunk_Cursor :: string
  chunk_ETag :: string

text \<open>
  A read request, by the arguments of \<^verbatim>\<open>buildReadURL\<close> and the custom headers set on
  it.
\<close>

record read_request =
  request_offset :: string
  request_live :: string
  request_cursor :: string
  request_headers :: "string \<rightharpoonup> string"

text \<open>
  The fields of \<^verbatim>\<open>ChunkIterator\<close>.  The private fields \<^verbatim>\<open>offset\<close>, \<^verbatim>\<open>live\<close>,
  \<^verbatim>\<open>cursor\<close> and \<^verbatim>\<open>headers\<close> carry the prefix \<open>it_\<close>; \<open>stream_url\<close> is
  \<^verbatim>\<open>it.stream.url\<close>; \<open>ctx_err\<close> is the state of \<^verbatim>\<open>it.ctx\<close>, \<open>None\<close> while the context
  is live; \<open>requests\<close> records the requests handed to the HTTP client.
\<close>

record ChunkIterator =
  stream_url :: string
  ctx_err :: "ctx_error option"
  it_offset :: string
  it_live :: string
  it_cursor :: string
  it_headers :: "string \<rightharpoonup> string"
  Offset :: string
  UpToDate :: bool
  Cursor :: string
  closed :: bool
  doneOnce :: bool
  requests :: "read_request list"

text \<open>
  What one call of \<^verbatim>\<open>Next\<close> meets outside the iterator: a cancellation of the context
  that arrived before the call, a failure of \<^verbatim>\<open>http.NewRequestWithContext\<close>, the
  outcome of \<^verbatim>\<open>httpClient.Do\<close> (an error or a response), and a cancellation of the
  context that arrives while the request runs.
\<close>

record next_env =
  ctx_before :: "ctx_error option"
  newRequest_err :: "error option"
  do_result :: "error + http_Response"
  ctx_during :: "ctx_error option"

text \<open>A context that has an error keeps it.\<close>

definition ctx_cancel :: "ctx_error option \<Rightarrow> ctx_error option \<Rightarrow> ctx_error option" where
  "ctx_cancel current arriving = (case current of None \<Rightarrow> arriving | Some e \<Rightarrow> Some e)"

text \<open>The \<^verbatim>\<open>switch resp.StatusCode\<close> of \<^verbatim>\<open>Next\<close>.\<close>

definition Next_response ::
  "http_Response \<Rightarrow> ChunkIterator \<Rightarrow> (Chunk option \<times> error option) \<times> ChunkIterator" where
  "Next_response resp it =
     (if StatusCode resp = 200 then
        (case Body resp of
           Inl err \<Rightarrow>
             ((None, Some (newStreamError ''read'' (stream_url it) (StatusCode resp) err)), it)
         | Inr data \<Rightarrow>
             (let nextOffset = Header_Get (Header resp) headerStreamOffset;
                  cursor = Header_Get (Header resp) headerStreamCursor;
                  upToDate = (Header_Get (Header resp) headerStreamUpToDate = ''true'');
                  etag = Header_Get (Header resp) headerETag;
                  it1 = it\<lparr>it_offset := nextOffset, it_cursor := cursor, Offset := nextOffset,
                          Cursor := cursor, UpToDate := upToDate\<rparr>;
                  it2 = (if upToDate \<and> it_live it1 = LiveModeNone
                         then it1\<lparr>doneOnce := True\<rparr> else it1)
              in ((Some \<lparr>chunk_NextOffset = nextOffset, chunk_Data = Some data,
                         chunk_UpToDate = upToDate, chunk_Cursor = cursor, chunk_ETag = etag\<rparr>,
                   None), it2)))
      else if StatusCode resp = 204 then
        (let nextOffset = Header_Get (Header resp) headerStreamOffset;
             cursor = Header_Get (Header resp) headerStreamCursor;
             upToDate = (Header_Get (Header resp) headerStreamUpToDate = ''true'');
             it1 = (if nextOffset \<noteq> '''' then it\<lparr>it_offset := nextOffset, Offset := nextOffset\<rparr>
                    else it);
             it2 = (if cursor \<noteq> '''' then it1\<lparr>it_cursor := cursor, Cursor := cursor\<rparr>
                    else it1);
             it3 = it2\<lparr>UpToDate := upToDate\<rparr>
         in if it_live it3 = LiveModeNone
            then ((None, Some Done), it3\<lparr>doneOnce := True\<rparr>)
            else ((Some \<lparr>chunk_NextOffset = nextOffset, chunk_Data = None,
                         chunk_UpToDate = upToDate, chunk_Cursor = cursor, chunk_ETag = ''''\<rparr>,
                   None), it3))
      else if StatusCode resp = 304 then
        (let cursor = Header_Get (Header resp) headerStreamCursor;
             it1 = (if cursor \<noteq> '''' then it\<lparr>it_cursor := cursor, Cursor := cursor\<rparr> else it)
         in ((Some \<lparr>chunk_NextOffset = it_offset it1, chunk_Data = None,
                     chunk_UpToDate = UpToDate it1, chunk_Cursor = it_cursor it1,
                     chunk_ETag = ''''\<rparr>,
               None), it1))
      else if StatusCode resp = 404 then
        ((None, Some (newStreamError ''read'' (stream_url it) (StatusCode resp) ErrStreamNotFound)),
         it)
      else if StatusCode resp = 410 then
        ((None, Some (newStreamError ''read'' (stream_url it) (StatusCode resp) ErrOffsetGone)), it)
      else
        ((None, Some (newStreamError ''read'' (stream_url it) (StatusCode resp)
                  (errorFromStatus (StatusCode resp)))), it))"

text \<open>
  \<^verbatim>\<open>ChunkIterator.Next\<close>: the returned pair \<^verbatim>\<open>(*Chunk, error)\<close> and the iterator
  afterwards.
\<close>

definition Next ::
  "next_env \<Rightarrow> ChunkIterator \<Rightarrow> (Chunk option \<times> error option) \<times> ChunkIterator" where
  "Next env it =
     (if closed it then ((None, Some ErrAlreadyClosed), it)
      else if doneOnce it then ((None, Some Done), it)
      else
        (let it1 = it\<lparr>ctx_err := ctx_cancel (ctx_err it) (ctx_before env)\<rparr>
         in case ctx_err it1 of
              Some e \<Rightarrow> ((None, Some (ContextError e)), it1)
            | None \<Rightarrow>
                (case newRequest_err env of
                   Some err \<Rightarrow> ((None, Some (newStreamError ''read'' (stream_url it1) 0 err)), it1)
                 | None \<Rightarrow>
                     (let req = \<lparr>request_offset = it_offset it1, request_live = it_live it1,
                                 request_cursor = it_cursor it1, request_headers = it_headers it1\<rparr>;
                          it2 = it1\<lparr>requests := requests it1 @ [req],
                                    ctx_err := ctx_cancel (ctx_err it1) (ctx_during env)\<rparr>
                      in case do_result env of
                           Inl err \<Rightarrow>
                             (case ctx_err it2 of
                                Some e \<Rightarrow> ((None, Some (ContextError e)), it2)
                              | None \<Rightarrow>
                                  ((None, Some (newStreamError ''read'' (stream_url it2) 0 err)),
                                   it2))
                         | Inr resp \<Rightarrow> Next_response resp it2))))"

text \<open>\<^verbatim>\<open>ChunkIterator.Close\<close>: the returned error and the iterator afterwards.\<close>

definition Close :: "ChunkIterator \<Rightarrow> error option \<times> ChunkIterator" where
  "Close it =
     (if closed it then (None, it)
      else (None, it\<lparr>closed := True, ctx_err := ctx_cancel (ctx_err it) (Some Canceled)\<rparr>))"

text \<open>
  A caller's calls on one iterator, one after the other, and what each of them
  returns.
\<close>

datatype call = CallNext next_env | CallClose

datatype outcome = Returned "Chunk option \<times> error option" | CloseReturned "error option"

fun run :: "call list \<Rightarrow> ChunkIterator \<Rightarrow> outcome list \<times> ChunkIterator" where
  "run [] it = ([], it)"
| "run (CallNext env # cs) it =
     (let (r, it1) = Next env it; (outs, it2) = run cs it1 in (Returned r # outs, it2))"
| "run (CallClose # cs) it =
     (let (e, it1) = Close it; (outs, it2) = run cs it1 in (CloseReturned e # outs, it2))"

text \<open>
  A call \<open>Next env it\<close> processes the response \<open>resp\<close> when it reaches the
  \<^verbatim>\<open>switch\<close>: the iterator is neither closed nor done, the context is live, the
  request could be built, and \<^verbatim>\<open>httpClient.Do\<close> returned \<open>resp\<close>.
\<close>

definition processes :: "next_env \<Rightarrow> ChunkIterator \<Rightarrow> http_Response \<Rightarrow> bool" where
  "processes env it resp =
     (\<not> closed it \<and> \<not> doneOnce it \<and> ctx_cancel (ctx_err it) (ctx_before env) = None \<and>
      newRequest_err env = None \<and> do_result env = Inr resp)"

section \<open>Decimal rendering\<close>
















section \<open>Properties of the cursor module\<close>












lemma jitterSeconds_preimage:
  "jitterSeconds random = J \<longleftrightarrow>
     rat_of_int (J - 1) \<le> random * 3600 \<and> random * 3600 < rat_of_int J"
proof -
  have "jitterSeconds random = J \<longleftrightarrow> \<lfloor>random * 3600\<rfloor> = J - 1"
    by (auto simp add: jitterSeconds_def MIN_JITTER_SECONDS_def MAX_JITTER_SECONDS_def)
  also have "\<dots> \<longleftrightarrow>
      rat_of_int (J - 1) \<le> random * 3600 \<and> random * 3600 < rat_of_int (J - 1) + 1"
    by (rule floor_eq_iff)
  also have "\<dots> \<longleftrightarrow> rat_of_int (J - 1) \<le> random * 3600 \<and> random * 3600 < rat_of_int J"
    by simp
  finally show ?thesis .
qed










section \<open>Properties of the client\<close>

text \<open>
  Claim C7.  A response with status 404 is surfaced as the not-found error, and
  \<open>handleErrorResponse\<close> raises a \<open>NOT_FOUND\<close> \<open>DurableStreamError\<close> with status 404
  exactly when the response status is 404.  For the other direction the error built by
  \<^verbatim>\<open>DurableStreamError.fromResponse\<close>, which is not among the source files, is assumed
  to carry the status of the response it is built from.
\<close>

theorem handleErrorResponse_not_found:
  assumes "\<And>e. fromResponse response url = DSE e \<Longrightarrow> error_status e = Some (status response)"
  shows "(status response = 404 \<longrightarrow>
      handleErrorResponse fromResponse response url context =
        DSE (DurableStreamError (''Stream not found: '' @ url) ''NOT_FOUND'' (Some 404)))
    \<and> ((\<exists>m. handleErrorResponse fromResponse response url context =
          DSE (DurableStreamError m ''NOT_FOUND'' (Some 404)))
        \<longleftrightarrow> status response = 404)"
proof -
  have a: "status response = 404 \<Longrightarrow>
      handleErrorResponse fromResponse response url context =
        DSE (DurableStreamError (''Stream not found: '' @ url) ''NOT_FOUND'' (Some 404))"
    by (simp add: handleErrorResponse_def)
  have b: "status response \<noteq> 404 \<Longrightarrow>
      handleErrorResponse fromResponse response url context \<noteq>
        DSE (DurableStreamError m ''NOT_FOUND'' (Some 404))" for m
  proof (cases "status response = 409 \<or> status response = 400")
    case True
    then show ?thesis
      by (auto simp add: handleErrorResponse_def Let_def)
  next
    case False
    assume n: "status response \<noteq> 404"
    with False have h: "handleErrorResponse fromResponse response url context = fromResponse response url"
      by (simp add: handleErrorResponse_def Let_def)
    show ?thesis
    proof
      assume "handleErrorResponse fromResponse response url context =
        DSE (DurableStreamError m ''NOT_FOUND'' (Some 404))"
      with h have "fromResponse response url = DSE (DurableStreamError m ''NOT_FOUND'' (Some 404))"
        by simp
      from assms [OF this] n show False
        by simp
    qed
  qed
  from a b show ?thesis
    by blast
qed

theorem handleErrorResponse_not_found_witness:
  "handleErrorResponse (\<lambda>r u. DSE (DurableStreamError u ''UNKNOWN'' (Some (status r))))
     \<lparr>status = 404, headers = Map.empty\<rparr> ''http://h/v1/stream/s'' None =
   DSE (DurableStreamError ''Stream not found: http://h/v1/stream/s'' ''NOT_FOUND'' (Some 404))"
  using handleErrorResponse_not_found
    [of "\<lambda>r u. DSE (DurableStreamError u ''UNKNOWN'' (Some (status r)))"
        "\<lparr>status = 404, headers = Map.empty\<rparr>" "''http://h/v1/stream/s''" None]
  by simp




lemma markClosed_fields [simp]:
  "live (markClosed s) = live s" "startSSE (markClosed s) = startSSE s"
  "fetchNext_calls (markClosed s) = fetchNext_calls s" "stream (markClosed s) = stream s"
  "aborted (markClosed s) = aborted s"
  by (simp_all add: markClosed_def)

lemma markError_fields [simp]:
  "live (markError e s) = live s" "startSSE (markError e s) = startSSE s"
  "fetchNext_calls (markError e s) = fetchNext_calls s" "stream (markError e s) = stream s"
  by (simp_all add: markError_def)

lemma controller_close_fields [simp]:
  "live (controller_close s) = live s" "startSSE (controller_close s) = startSSE s"
  "fetchNext_calls (controller_close s) = fetchNext_calls s" "stream (controller_close s) = Closed"
  by (simp_all add: controller_close_def)

lemma controller_error_fields [simp]:
  "live (controller_error e s) = live s" "startSSE (controller_error e s) = startSSE s"
  "fetchNext_calls (controller_error e s) = fetchNext_calls s"
  "stream (controller_error e s) = Errored e"
  by (simp_all add: controller_error_def)

lemma enqueue_fields [simp]:
  "live (enqueue r s) = live s" "startSSE (enqueue r s) = startSSE s"
  "fetchNext_calls (enqueue r s) = fetchNext_calls s"
  by (simp_all add: enqueue_def)

lemma updateStateFromResponse_fields [simp]:
  "live (updateStateFromResponse r s) = live s"
  "startSSE (updateStateFromResponse r s) = startSSE s"
  "fetchNext_calls (updateStateFromResponse r s) = fetchNext_calls s"
  by (simp_all add: updateStateFromResponse_def Let_def)

lemma pull_catch_fields [simp]:
  "live (pull_catch e s) = live s" "startSSE (pull_catch e s) = startSSE s"
  "fetchNext_calls (pull_catch e s) = fetchNext_calls s"
  by (simp_all add: pull_catch_def)

lemma pull_live [simp]: "live (pull env s) = live s"
  by (simp add: pull_def Let_def split: sum.split)

lemma pull_startSSE [simp]: "startSSE (pull env s) = startSSE s"
  by (simp add: pull_def Let_def split: sum.split)









section \<open>Properties of the chunk iterator\<close>

lemma Next_closed: "closed it \<Longrightarrow> Next env it = ((None, Some ErrAlreadyClosed), it)"
  by (simp add: Next_def)

lemma Next_done: "\<not> closed it \<Longrightarrow> doneOnce it \<Longrightarrow> Next env it = ((None, Some Done), it)"
  by (simp add: Next_def)

lemma Close_closed: "closed it \<Longrightarrow> Close it = (None, it)"
  by (simp add: Close_def)

lemma Close_fields:
  "fst (Close it) = None" "closed (snd (Close it))" "doneOnce (snd (Close it)) = doneOnce it"
  "requests (snd (Close it)) = requests it"
  by (simp_all add: Close_def)

lemma Next_processes:
  assumes "processes env it resp"
  shows "Next env it = Next_response resp (it\<lparr>requests := requests it @
          [\<lparr>request_offset = it_offset it, request_live = it_live it,
            request_cursor = it_cursor it, request_headers = it_headers it\<rparr>],
          ctx_err := ctx_during env\<rparr>)"
  using assms by (simp add: processes_def Next_def Let_def ctx_cancel_def)

lemma Next_response_closed: "closed (snd (Next_response resp it)) = closed it"
  by (simp add: Next_response_def Let_def split: sum.split)

lemma Next_response_requests: "requests (snd (Next_response resp it)) = requests it"
  by (simp add: Next_response_def Let_def split: sum.split)

lemma Next_response_200_done:
  assumes "StatusCode resp = 200" and "it_live it = LiveModeNone"
    and "Next_response resp it = ((Some c, None), it')" and "chunk_UpToDate c"
  shows "doneOnce it'"
  using assms by (auto simp add: Next_response_def Let_def split: sum.splits if_splits)

lemma Next_response_204_done:
  assumes "StatusCode resp = 204" and "it_live it = LiveModeNone"
  shows "doneOnce (snd (Next_response resp it)) \<and> fst (Next_response resp it) = (None, Some Done)"
  using assms by (simp add: Next_response_def Let_def)

lemma Next_response_204_fields:
  assumes "StatusCode resp = 204"
  shows "Offset (snd (Next_response resp it)) =
      (if Header_Get (Header resp) headerStreamOffset \<noteq> []
       then Header_Get (Header resp) headerStreamOffset else Offset it)"
    and "Cursor (snd (Next_response resp it)) =
      (if Header_Get (Header resp) headerStreamCursor \<noteq> []
       then Header_Get (Header resp) headerStreamCursor else Cursor it)"
  using assms by (simp_all add: Next_response_def Let_def)

lemma run_done:
  assumes "doneOnce it"
  shows "requests (snd (run cs it)) = requests it \<and>
    (\<forall>k<length cs. \<forall>env. cs ! k = CallNext env \<longrightarrow>
       fst (run cs it) ! k =
         Returned (None, Some (if closed it \<or> CallClose \<in> set (take k cs)
                               then ErrAlreadyClosed else Done)))"
  using assms
proof (induction cs arbitrary: it)
  case Nil
  then show ?case by simp
next
  case (Cons c cs)
  show ?case
  proof (cases c)
    case (CallNext env)
    have n: "Next env it = ((None, Some (if closed it then ErrAlreadyClosed else Done)), it)"
      using Cons.prems by (simp add: Next_closed Next_done)
    have r: "run (c # cs) it =
        (Returned (None, Some (if closed it then ErrAlreadyClosed else Done)) # fst (run cs it),
         snd (run cs it))"
      by (simp add: CallNext n split_beta)
    from Cons.IH [OF Cons.prems] have ih1: "requests (snd (run cs it)) = requests it"
      and ih2: "\<And>k env. k < length cs \<Longrightarrow> cs ! k = CallNext env \<Longrightarrow>
        fst (run cs it) ! k =
          Returned (None, Some (if closed it \<or> CallClose \<in> set (take k cs)
                                then ErrAlreadyClosed else Done))"
      by blast+
    have "fst (run (c # cs) it) ! k =
        Returned (None, Some (if closed it \<or> CallClose \<in> set (take k (c # cs))
                              then ErrAlreadyClosed else Done))"
      if "k < length (c # cs)" and "(c # cs) ! k = CallNext env'" for k env'
    proof (cases k)
      case 0
      then show ?thesis unfolding r by simp
    next
      case (Suc j)
      with that have "j < length cs" and "cs ! j = CallNext env'"
        by simp_all
      from ih2 [OF this] show ?thesis
        unfolding r by (simp add: Suc CallNext)
    qed
    with ih1 show ?thesis
      unfolding r by simp
  next
    case CallClose
    obtain it1 where c1: "Close it = (None, it1)" and cl: "closed it1" and d1: "doneOnce it1"
      and q1: "requests it1 = requests it"
      using Close_fields [of it] Cons.prems by (cases "Close it") auto
    have r: "run (c # cs) it = (CloseReturned None # fst (run cs it1), snd (run cs it1))"
      by (simp add: CallClose c1 split_beta)
    from Cons.IH [OF d1] cl have ih1: "requests (snd (run cs it1)) = requests it1"
      and ih2: "\<And>k env. k < length cs \<Longrightarrow> cs ! k = CallNext env \<Longrightarrow>
        fst (run cs it1) ! k = Returned (None, Some ErrAlreadyClosed)"
      by simp_all
    have "fst (run (c # cs) it) ! k =
        Returned (None, Some (if closed it \<or> CallClose \<in> set (take k (c # cs))
                              then ErrAlreadyClosed else Done))"
      if "k < length (c # cs)" and "(c # cs) ! k = CallNext env'" for k env'
    proof (cases k)
      case 0
      with that CallClose show ?thesis by simp
    next
      case (Suc j)
      with that have "j < length cs" and "cs ! j = CallNext env'"
        by simp_all
      from ih2 [OF this] show ?thesis
        unfolding r by (simp add: Suc CallClose)
    qed
    with ih1 q1 show ?thesis
      unfolding r by simp
  qed
qed

lemma run_closed:
  assumes "closed it"
  shows "\<forall>k<length cs.
    (\<forall>env. cs ! k = CallNext env \<longrightarrow>
       fst (run cs it) ! k = Returned (None, Some ErrAlreadyClosed)) \<and>
    (cs ! k = CallClose \<longrightarrow> fst (run cs it) ! k = CloseReturned None)"
proof (induction cs)
  case Nil
  then show ?case by simp
next
  case (Cons c cs)
  have r: "run (c # cs) it =
      ((case c of CallNext env \<Rightarrow> Returned (None, Some ErrAlreadyClosed)
        | CallClose \<Rightarrow> CloseReturned None) # fst (run cs it), snd (run cs it))"
    using assms by (cases c) (simp_all add: Next_closed Close_closed split_beta)
  show ?case
  proof (intro allI impI)
    fix k
    assume "k < length (c # cs)"
    then show "(\<forall>env. (c # cs) ! k = CallNext env \<longrightarrow>
         fst (run (c # cs) it) ! k = Returned (None, Some ErrAlreadyClosed)) \<and>
      ((c # cs) ! k = CallClose \<longrightarrow> fst (run (c # cs) it) ! k = CloseReturned None)"
      unfolding r using Cons.IH by (cases k) auto
  qed
qed

text \<open>
  Claim C8 as stated does not hold when the iterator is closed in between.  An iterator
  in catch-up mode gets a 200 response that is up to date, is closed, and is asked
  again: \<open>Next\<close> tests \<^verbatim>\<open>it.closed\<close> before \<^verbatim>\<open>it.doneOnce\<close> and returns
  \<open>ErrAlreadyClosed\<close>, not \<open>Done\<close>.
\<close>

theorem Next_after_done_counterexample:
  "fst (run
     [CallNext \<lparr>ctx_before = None, newRequest_err = None,
        do_result = Inr \<lparr>StatusCode = 200,
          Header = [''Stream-Next-Offset'' \<mapsto> [''0000000000000001_0000000000000010''],
                    ''Stream-Up-To-Date'' \<mapsto> [''true'']],
          Body = Inr ''hello''\<rparr>,
        ctx_during = None\<rparr>,
      CallClose,
      CallNext \<lparr>ctx_before = None, newRequest_err = None,
        do_result = Inr \<lparr>StatusCode = 200, Header = Map.empty, Body = Inr ''''\<rparr>,
        ctx_during = None\<rparr>]
     \<lparr>stream_url = ''http://h/v1/stream/s'', ctx_err = None, it_offset = ''-1'',
      it_live = LiveModeNone, it_cursor = '''', it_headers = Map.empty, Offset = ''-1'',
      UpToDate = False, Cursor = '''', closed = False, doneOnce = False, requests = []\<rparr>) =
   [Returned (Some \<lparr>chunk_NextOffset = ''0000000000000001_0000000000000010'',
        chunk_Data = Some ''hello'', chunk_UpToDate = True, chunk_Cursor = '''',
        chunk_ETag = ''''\<rparr>, None),
    CloseReturned None,
    Returned (None, Some ErrAlreadyClosed)]"
  by (simp add: Next_def Next_response_def Close_def ctx_cancel_def Header_Get_def Let_def
      headerStreamOffset_def headerStreamCursor_def headerStreamUpToDate_def headerETag_def
      LiveModeNone_def)

text \<open>
  Claim C8, amended.  For an iterator created with \<open>LiveModeNone\<close>: once \<open>Next\<close> has
  returned the chunk of a 200 response whose \<open>UpToDate\<close> flag is true, or has processed a
  204 response, every later call of \<open>Next\<close> issues no HTTP request and returns the
  \<open>Done\<close> sentinel as long as \<open>Close\<close> has not been called; after a \<open>Close\<close> it
  returns \<open>ErrAlreadyClosed\<close>.  The later calls are any list \<open>cs\<close> of calls of \<open>Next\<close>
  and \<open>Close\<close>, and \<open>k\<close> is the position of a call of \<open>Next\<close> in it.
\<close>

theorem Next_after_done:
  assumes "it_live it = LiveModeNone" and "processes env it resp"
    and "Next env it = (r, it')"
    and "(StatusCode resp = 200 \<and> (\<exists>c. r = (Some c, None) \<and> chunk_UpToDate c))
      \<or> StatusCode resp = 204"
    and "k < length cs" and "cs ! k = CallNext env'"
  shows "fst (run cs it') ! k =
      Returned (None, Some (if CallClose \<in> set (take k cs) then ErrAlreadyClosed else Done))
    \<and> requests (snd (run cs it')) = requests it'"
proof -
  let ?it2 = "it\<lparr>requests := requests it @
          [\<lparr>request_offset = it_offset it, request_live = it_live it,
            request_cursor = it_cursor it, request_headers = it_headers it\<rparr>],
          ctx_err := ctx_during env\<rparr>"
  have n: "Next_response resp ?it2 = (r, it')"
    using Next_processes [OF assms(2)] assms(3) by simp
  have live: "it_live ?it2 = LiveModeNone"
    using assms(1) by simp
  have "closed it' = closed ?it2"
    using Next_response_closed [of resp ?it2] n by simp
  then have nc: "\<not> closed it'"
    using assms(2) by (simp add: processes_def)
  have d: "doneOnce it'"
    using assms(4)
  proof
    assume "StatusCode resp = 200 \<and> (\<exists>c. r = (Some c, None) \<and> chunk_UpToDate c)"
    then obtain c where "StatusCode resp = 200" and "r = (Some c, None)" and "chunk_UpToDate c"
      by blast
    with n live show ?thesis
      using Next_response_200_done [of resp ?it2 c it'] by simp
  next
    assume "StatusCode resp = 204"
    with n live show ?thesis
      using Next_response_204_done [of resp ?it2] by simp
  qed
  from run_done [OF d, of cs] nc assms(5,6) show ?thesis
    by simp
qed

theorem Next_after_done_witness:
  "fst (run
     [CallNext \<lparr>ctx_before = None, newRequest_err = None,
        do_result = Inr \<lparr>StatusCode = 200, Header = Map.empty, Body = Inr ''x''\<rparr>,
        ctx_during = None\<rparr>,
      CallNext \<lparr>ctx_before = None, newRequest_err = None,
        do_result = Inr \<lparr>StatusCode = 200, Header = Map.empty, Body = Inr ''y''\<rparr>,
        ctx_during = None\<rparr>]
     (snd (Next
       \<lparr>ctx_before = None, newRequest_err = None,
        do_result = Inr \<lparr>StatusCode = 200,
          Header = [''Stream-Next-Offset'' \<mapsto> [''0000000000000001_0000000000000010''],
                    ''Stream-Up-To-Date'' \<mapsto> [''true'']],
          Body = Inr ''hello''\<rparr>,
        ctx_during = None\<rparr>
       \<lparr>stream_url = ''http://h/v1/stream/s'', ctx_err = None, it_offset = ''-1'',
        it_live = LiveModeNone, it_cursor = '''', it_headers = Map.empty, Offset = ''-1'',
        UpToDate = False, Cursor = '''', closed = False, doneOnce = False, requests = []\<rparr>))) ! 1 =
   Returned (None, Some Done)"
proof -
  let ?resp = "\<lparr>StatusCode = 200,
          Header = [''Stream-Next-Offset'' \<mapsto> [''0000000000000001_0000000000000010''],
                    ''Stream-Up-To-Date'' \<mapsto> [''true'']],
          Body = Inr ''hello''\<rparr>"
  let ?env = "\<lparr>ctx_before = None, newRequest_err = None, do_result = Inr ?resp,
        ctx_during = None\<rparr>"
  let ?it = "\<lparr>stream_url = ''http://h/v1/stream/s'', ctx_err = None, it_offset = ''-1'',
        it_live = LiveModeNone, it_cursor = '''', it_headers = Map.empty, Offset = ''-1'',
        UpToDate = False, Cursor = '''', closed = False, doneOnce = False, requests = []\<rparr>"
  let ?e1 = "\<lparr>ctx_before = None, newRequest_err = None,
        do_result = Inr \<lparr>StatusCode = 200, Header = Map.empty, Body = Inr ''x''\<rparr>,
        ctx_during = None\<rparr>"
  let ?e2 = "\<lparr>ctx_before = None, newRequest_err = None,
        do_result = Inr \<lparr>StatusCode = 200, Header = Map.empty, Body = Inr ''y''\<rparr>,
        ctx_during = None\<rparr>"
  have a: "it_live ?it = LiveModeNone"
    by simp
  have b: "processes ?env ?it ?resp"
    by (simp add: processes_def ctx_cancel_def)
  have c: "Next ?env ?it = (fst (Next ?env ?it), snd (Next ?env ?it))"
    by simp
  have d: "(StatusCode ?resp = 200 \<and>
      (\<exists>c. fst (Next ?env ?it) = (Some c, None) \<and> chunk_UpToDate c)) \<or> StatusCode ?resp = 204"
    by (simp add: Next_def Next_response_def ctx_cancel_def Header_Get_def Let_def
      headerStreamOffset_def headerStreamCursor_def headerStreamUpToDate_def headerETag_def
      LiveModeNone_def)
  have k: "1 < length [CallNext ?e1, CallNext ?e2]"
    by simp
  have n: "[CallNext ?e1, CallNext ?e2] ! 1 = CallNext ?e2"
    by simp
  have t: "CallClose \<notin> set (take 1 [CallNext ?e1, CallNext ?e2])"
    by simp
  from Next_after_done [OF a b c d k n] t show ?thesis
    by (simp only: if_False)
qed

text \<open>
  Claim C9.  When \<open>Next\<close> processes a 204 response, the field \<open>Offset\<close> is set to the
  value of the header \<open>Stream-Next-Offset\<close> only if that value is not empty, and the
  field \<open>Cursor\<close> to the value of \<open>Stream-Cursor\<close> only if that value is not empty;
  otherwise, in particular when the header is absent, the field keeps its value.
\<close>

theorem Next_204_frame:
  assumes "processes env it resp" and "StatusCode resp = 204"
  shows "Offset (snd (Next env it)) =
      (if Header_Get (Header resp) headerStreamOffset \<noteq> ''''
       then Header_Get (Header resp) headerStreamOffset else Offset it)
    \<and> Cursor (snd (Next env it)) =
      (if Header_Get (Header resp) headerStreamCursor \<noteq> ''''
       then Header_Get (Header resp) headerStreamCursor else Cursor it)
    \<and> (Header resp headerStreamOffset = None \<longrightarrow> Offset (snd (Next env it)) = Offset it)
    \<and> (Header resp headerStreamCursor = None \<longrightarrow> Cursor (snd (Next env it)) = Cursor it)"
  using Next_response_204_fields [OF assms(2)]
  by (simp add: Next_processes [OF assms(1)] Header_Get_def)

theorem Next_204_frame_witness:
  "Offset (snd (Next
     \<lparr>ctx_before = None, newRequest_err = None,
      do_result = Inr \<lparr>StatusCode = 204, Header = [''Stream-Cursor'' \<mapsto> [''6'']],
        Body = Inr ''''\<rparr>,
      ctx_during = None\<rparr>
     \<lparr>stream_url = ''http://h/v1/stream/s'', ctx_err = None,
      it_offset = ''0000000000000001_0000000000000010'', it_live = ''long-poll'',
      it_cursor = ''5'', it_headers = Map.empty, Offset = ''0000000000000001_0000000000000010'',
      UpToDate = True, Cursor = ''5'', closed = False, doneOnce = False, requests = []\<rparr>)) =
   ''0000000000000001_0000000000000010''
   \<and> Cursor (snd (Next
     \<lparr>ctx_before = None, newRequest_err = None,
      do_result = Inr \<lparr>StatusCode = 204, Header = [''Stream-Cursor'' \<mapsto> [''6'']],
        Body = Inr ''''\<rparr>,
      ctx_during = None\<rparr>
     \<lparr>stream_url = ''http://h/v1/stream/s'', ctx_err = None,
      it_offset = ''0000000000000001_0000000000000010'', it_live = ''long-poll'',
      it_cursor = ''5'', it_headers = Map.empty, Offset = ''0000000000000001_0000000000000010'',
      UpToDate = True, Cursor = ''5'', closed = False, doneOnce = False, requests = []\<rparr>)) =
   ''6''"
proof -
  let ?resp = "\<lparr>StatusCode = 204, Header = [''Stream-Cursor'' \<mapsto> [''6'']],
        Body = Inr ''''\<rparr>"
  let ?env = "\<lparr>ctx_before = None, newRequest_err = None, do_result = Inr ?resp,
      ctx_during = None\<rparr>"
  let ?it = "\<lparr>stream_url = ''http://h/v1/stream/s'', ctx_err = None,
      it_offset = ''0000000000000001_0000000000000010'', it_live = ''long-poll'',
      it_cursor = ''5'', it_headers = Map.empty, Offset = ''0000000000000001_0000000000000010'',
      UpToDate = True, Cursor = ''5'', closed = False, doneOnce = False, requests = []\<rparr>"
  have b: "processes ?env ?it ?resp"
    by (simp add: processes_def ctx_cancel_def)
  have s: "StatusCode ?resp = 204"
    by simp
  have o: "Header_Get (Header ?resp) headerStreamOffset = ''''"
    by (simp add: Header_Get_def headerStreamOffset_def)
  have c: "Header_Get (Header ?resp) headerStreamCursor = ''6''"
    by (simp add: Header_Get_def headerStreamCursor_def)
  have i: "Offset ?it = ''0000000000000001_0000000000000010''"
    by simp
  from Next_204_frame [OF b s] show ?thesis
    unfolding o c i by simp
qed

text \<open>
  Claim C10.  \<open>Close\<close> returns no error; after it every later call of \<open>Next\<close> returns
  no chunk and the error \<open>ErrAlreadyClosed\<close>, and every later call of \<open>Close\<close> returns no
  error and leaves the iterator as it is.  The later calls are any list \<open>cs\<close> of calls,
  and \<open>k\<close> is a position in it.
\<close>

theorem Close_then_Next:
  assumes "k < length cs"
  shows "fst (Close it) = None
    \<and> Close (snd (Close it)) = (None, snd (Close it))
    \<and> (\<forall>env. cs ! k = CallNext env \<longrightarrow>
         fst (run cs (snd (Close it))) ! k = Returned (None, Some ErrAlreadyClosed))
    \<and> (cs ! k = CallClose \<longrightarrow> fst (run cs (snd (Close it))) ! k = CloseReturned None)"
  using assms run_closed [of "snd (Close it)" cs] Close_fields(1,2) [of it]
    Close_closed [of "snd (Close it)"]
  by simp

theorem Close_then_Next_witness:
  "fst (run
     [CallNext \<lparr>ctx_before = None, newRequest_err = None,
        do_result = Inr \<lparr>StatusCode = 200, Header = Map.empty, Body = Inr ''x''\<rparr>,
        ctx_during = None\<rparr>,
      CallClose,
      CallNext \<lparr>ctx_before = None, newRequest_err = None,
        do_result = Inr \<lparr>StatusCode = 200, Header = Map.empty, Body = Inr ''y''\<rparr>,
        ctx_during = None\<rparr>]
     (snd (Close
       \<lparr>stream_url = ''http://h/v1/stream/s'', ctx_err = None, it_offset = ''-1'',
        it_live = ''long-poll'', it_cursor = '''', it_headers = Map.empty, Offset = ''-1'',
        UpToDate = False, Cursor = '''', closed = False, doneOnce = False, requests = []\<rparr>))) ! 2 =
   Returned (None, Some ErrAlreadyClosed)"
proof -
  let ?e1 = "\<lparr>ctx_before = None, newRequest_err = None,
        do_result = Inr \<lparr>StatusCode = 200, Header = Map.empty, Body = Inr ''x''\<rparr>,
        ctx_during = None\<rparr>"
  let ?e2 = "\<lparr>ctx_before = None, newRequest_err = None,
        do_result = Inr \<lparr>StatusCode = 200, Header = Map.empty, Body = Inr ''y''\<rparr>,
        ctx_during = None\<rparr>"
  let ?it = "\<lparr>stream_url = ''http://h/v1/stream/s'', ctx_err = None, it_offset = ''-1'',
        it_live = ''long-poll'', it_cursor = '''', it_headers = Map.empty, Offset = ''-1'',
        UpToDate = False, Cursor = '''', closed = False, doneOnce = False, requests = []\<rparr>"
  have k: "2 < length [CallNext ?e1, CallClose, CallNext ?e2]"
    by simp
  have n: "[CallNext ?e1, CallClose, CallNext ?e2] ! 2 = CallNext ?e2"
    by simp
  from Close_then_Next [OF k, of ?it] n show ?thesis
    by blast
qed

end
